theory Spec2Isabelle
  imports Main
begin

section \<open>Data model\<close>

text \<open>
  The lesson's server keeps its notes in a module-level array of objects
  \<^verbatim>\<open>{ id, title, body }\<close> (routes/notes.js). A note is a record; the array is a
  \<open>Note list\<close> that every handler receives and returns (explicit state passing).
\<close>

record Note =
  note_id :: string
  title :: string
  body :: string

text \<open>What \<^verbatim>\<open>res.json(...)\<close> serialises: the JSON values the handlers build.\<close>

datatype json =
    JString string
  | JNumber int
  | JArray "json list"
  | JObject "(string \<times> json) list"

text \<open>
  A JavaScript \<^verbatim>\<open>Error\<close> object as the lesson uses it: a message, and a
  \<^verbatim>\<open>status\<close> property that is either absent (\<open>None\<close>) or an integer bolted on
  after construction (\<^verbatim>\<open>err.status = 404\<close>).
\<close>

record js_error =
  message :: string
  status :: "int option"

text \<open>A response with a body: the status line's code and the JSON sent after it.\<close>

record response =
  statusCode :: int
  sent :: json

text \<open>
  The request verbs of the model. \<^verbatim>\<open>HEAD\<close> and \<^verbatim>\<open>OPTIONS\<close>, which the framework
  answers by rules of its own, are outside the model.
\<close>

datatype http_method = GET | POST | PUT | PATCH | DELETE

fun method_name :: "http_method \<Rightarrow> string" where
  "method_name GET = ''GET''"
| "method_name POST = ''POST''"
| "method_name PUT = ''PUT''"
| "method_name PATCH = ''PATCH''"
| "method_name DELETE = ''DELETE''"

text \<open>
  The request as the handlers read it: \<^verbatim>\<open>req.method\<close>, \<^verbatim>\<open>req.url\<close> (the raw request
  target in origin form, query string included), \<^verbatim>\<open>req.params\<close> (filled in by the
  router when a route matches) and \<^verbatim>\<open>req.body\<close> (the object that \<^verbatim>\<open>express.json()\<close>
  parsed; its fields are strings, as the fields of a note are). Request headers are not
  part of the model, so no request is a conditional one.
\<close>

record request =
  req_method :: http_method
  url :: string
  params :: "(string \<times> string) list"
  req_body :: "(string \<times> string) list"

text \<open>
  What a handler does with a request: it sends a response with a body, or one without
  (a status that carries none); it passes on (\<^verbatim>\<open>next()\<close>); it delegates an error
  (\<^verbatim>\<open>next(err)\<close>); it throws; or, for an \<^verbatim>\<open>async\<close> handler, its promise rejects with nobody
  catching it.
\<close>

datatype action =
    Respond response
  | Respond_no_body int
  | Next
  | Next_err js_error
  | Threw js_error
  | Rejected js_error

type_synonym handler = "request \<Rightarrow> Note list \<Rightarrow> action \<times> Note list"

type_synonym error_handler = "js_error \<Rightarrow> request \<Rightarrow> Note list \<Rightarrow> action \<times> Note list"

text \<open>
  One registration: \<^verbatim>\<open>app.get(path, h)\<close> and \<^verbatim>\<open>app.post(path, h)\<close> on the application are
  \<open>Route\<close>; \<^verbatim>\<open>router.get(path, h)\<close> on a router that the application mounts with
  \<^verbatim>\<open>app.use(mount, router)\<close> is \<open>Mounted\<close>, which keeps the mount path and the route's own
  path apart; \<^verbatim>\<open>app.use(h)\<close> with a three-argument function is \<open>Use\<close>, and with a
  four-argument function \<^verbatim>\<open>(err, req, res, next)\<close> it is \<open>Use_err\<close>.
\<close>

datatype stage =
    Route http_method string handler
  | Mounted string http_method string handler
  | Use handler
  | Use_err error_handler

text \<open>
  How a request ends: a response was sent, with a body or without; the chain was
  exhausted with no error (the framework's own 404 page); the chain was exhausted with
  an error that no error middleware took (the framework's own error page); or a promise
  rejection that nobody handled (no response from the chain, error middleware not
  called).
\<close>

datatype outcome =
    Sent response
  | Sent_no_body int
  | Fell_through
  | Fell_through_err js_error
  | Unhandled_rejection js_error

record result =
  outcome :: outcome
  store :: "Note list"
  ran :: "nat list"

section \<open>JavaScript and Node primitives\<close>

text \<open>
  \<^verbatim>\<open>String(n)\<close> on a non-negative integer: its decimal digits, most significant first; on
  a negative integer, a minus sign and the digits of its absolute value.
\<close>

definition digit_char :: "nat \<Rightarrow> char" where
  "digit_char d = ''0123456789'' ! d"

function String_nat :: "nat \<Rightarrow> string" where
  "String_nat n = (if n < 10 then [digit_char n] else String_nat (n div 10) @ [digit_char (n mod 10)])"
  by pat_completeness auto
termination
  by (relation "measure id") auto

declare String_nat.simps [simp del]

definition String_int :: "int \<Rightarrow> string" where
  "String_int k = (if k < 0 then CHR ''-'' # String_nat (nat (- k)) else String_nat (nat k))"

text \<open>
  JavaScript's \<^verbatim>\<open>a || b\<close> for an \<^verbatim>\<open>a\<close> that is absent or an integer: \<^verbatim>\<open>undefined\<close> and
  \<^verbatim>\<open>0\<close> are falsy, every other integer is truthy.
\<close>

definition js_or :: "int option \<Rightarrow> int \<Rightarrow> int" where
  "js_or a b = (case a of None \<Rightarrow> b | Some c \<Rightarrow> if c = 0 then b else c)"

text \<open>\<^verbatim>\<open>!v\<close> on a property of \<^verbatim>\<open>req.body\<close>: true when it is missing or the empty string.\<close>

definition falsy :: "string option \<Rightarrow> bool" where
  "falsy v = (case v of None \<Rightarrow> True | Some x \<Rightarrow> x = [])"

text \<open>\<^verbatim>\<open>code | 0\<close>: an integer wrapped to 32 bits, signed.\<close>

definition int32 :: "int \<Rightarrow> int" where
  "int32 k = (k + 2147483648) mod 4294967296 - 2147483648"

text \<open>
  \<^verbatim>\<open>res.status(code).json(v)\<close> with an integer code, as Express 4 on Node carries it out.
  \<^verbatim>\<open>res.status\<close> stores the code and \<^verbatim>\<open>res.json\<close> serialises \<^verbatim>\<open>v\<close> and hands it to
  \<^verbatim>\<open>res.send\<close>, which empties the body when the stored code is 204, 205 or 304. Writing
  the head wraps the code to 32 bits (\<^verbatim>\<open>statusCode |= 0\<close>) and throws
  \<^verbatim>\<open>RangeError: Invalid status code\<close> when the result is not within 100 to 999, before
  anything is sent; Node itself sends no body when the code on the wire is 1xx, 204 or
  304.
\<close>

definition res_status_json :: "int \<Rightarrow> json \<Rightarrow> action" where
  "res_status_json code v =
     (let wire = int32 code
      in if wire < 100 \<or> 999 < wire
         then Threw \<lparr>message = ''Invalid status code: '' @ String_int code, status = None\<rparr>
         else if wire \<le> 199 \<or> wire = 204 \<or> wire = 304 \<or> code = 205
         then Respond_no_body wire
         else Respond \<lparr>statusCode = wire, sent = v\<rparr>)"

text \<open>\<^verbatim>\<open>res.json(v)\<close> alone: the status is the default, 200.\<close>

definition res_json :: "json \<Rightarrow> response" where
  "res_json v = \<lparr>statusCode = 200, sent = v\<rparr>"

section \<open>Route matching\<close>

text \<open>
  The request path (\<^verbatim>\<open>req.path\<close>) is the part of \<^verbatim>\<open>req.url\<close> before the query string
  (or a fragment mark). The router of Express 4 turns each route path into a regular
  expression: \<^verbatim>\<open>/hello\<close> becomes \<^verbatim>\<open>^\/hello\/?$\<close>, \<^verbatim>\<open>/:id\<close> becomes
  \<^verbatim>\<open>^\/(?:([^\/]+?))\/?$\<close> and \<^verbatim>\<open>/\<close> becomes \<^verbatim>\<open>^\/?$\<close>, all of them ignoring case. In
  terms of the pieces between the slashes of the path: the pieces match the pattern's
  pieces one by one, a literal piece without regard to ASCII case and a \<^verbatim>\<open>:name\<close> piece
  binding one whole non-empty piece, taken as it stands (percent-escapes are not decoded
  in the model); one slash may follow, and nothing else. No empty piece is dropped:
  \<^verbatim>\<open>//hello\<close> and \<^verbatim>\<open>/hello//\<close> do not match \<^verbatim>\<open>/hello\<close>.
\<close>

definition pathname :: "string \<Rightarrow> string" where
  "pathname u = takeWhile (\<lambda>c. c \<noteq> CHR ''?'' \<and> c \<noteq> CHR ''#'') u"

text \<open>The pieces of a string between its slashes: \<^verbatim>\<open>/a//b/\<close> has the pieces "", a, "", b, "".\<close>

primrec split_slash :: "string \<Rightarrow> string list" where
  "split_slash [] = [[]]"
| "split_slash (c # cs) =
     (if c = CHR ''/'' then [] # split_slash cs
      else (case split_slash cs of [] \<Rightarrow> [[c]] | x # xs \<Rightarrow> (c # x) # xs))"

definition lower_char :: "char \<Rightarrow> char" where
  "lower_char c =
     (case map_of (zip ''ABCDEFGHIJKLMNOPQRSTUVWXYZ'' ''abcdefghijklmnopqrstuvwxyz'') c of
        Some d \<Rightarrow> d
      | None \<Rightarrow> c)"

definition lower :: "string \<Rightarrow> string" where
  "lower s = map lower_char s"

datatype seg = Lit string | Param string

definition seg_of :: "string \<Rightarrow> seg" where
  "seg_of s =
     (case s of [] \<Rightarrow> Lit [] | c # cs \<Rightarrow> if c = CHR '':'' \<and> cs \<noteq> [] then Param cs else Lit s)"

text \<open>A path written with a slash at its end has the same expression as without it.\<close>

definition drop_last_empty :: "string list \<Rightarrow> string list" where
  "drop_last_empty xs = (if xs \<noteq> [] \<and> last xs = [] then butlast xs else xs)"

text \<open>
  The pieces of a route path or a mount path after its leading slash; \<open>None\<close> for a
  path that does not start with a slash, which matches no request.
\<close>

definition pieces_of :: "string \<Rightarrow> string list option" where
  "pieces_of p =
     (case split_slash p of
        [] \<Rightarrow> None
      | x # xs \<Rightarrow> if x = [] then Some xs else None)"

definition parse_pattern :: "string \<Rightarrow> seg list option" where
  "parse_pattern p = map_option (\<lambda>xs. map seg_of (drop_last_empty xs)) (pieces_of p)"

fun match_segs :: "seg list \<Rightarrow> string list \<Rightarrow> (string \<times> string) list option" where
  "match_segs [] [] = Some []"
| "match_segs [] [x] = (if x = [] then Some [] else None)"
| "match_segs [] (x # y # ys) = None"
| "match_segs (Lit l # ps) (x # xs) = (if lower l = lower x then match_segs ps xs else None)"
| "match_segs (Param k # ps) (x # xs) =
     (if x = [] then None else map_option ((#) (k, x)) (match_segs ps xs))"
| "match_segs (p # ps) [] = None"

text \<open>A route registered on the application: its path against the whole request path.\<close>

definition match_route :: "string \<Rightarrow> string \<Rightarrow> (string \<times> string) list option" where
  "match_route pat u =
     (case (parse_pattern pat, pieces_of (pathname u)) of
        (Some ps, Some xs) \<Rightarrow> match_segs ps xs
      | _ \<Rightarrow> None)"

text \<open>
  \<^verbatim>\<open>app.use("/notes", router)\<close>: the mount path becomes \<^verbatim>\<open>^\/notes\/?(?=\/|$)\<close>. The request
  path must start with the mount's pieces; the router then sees the rest of the path.
  The optional slash of the expression is taken when a slash or the end follows it, so
  of two slashes after the mount path the first is removed with it; an empty rest is
  the path \<^verbatim>\<open>/\<close>.
\<close>

fun under :: "string list \<Rightarrow> string list \<Rightarrow> string list option" where
  "under [] [] = Some [[]]"
| "under [] (x # xs) = Some (if x = [] then (if xs = [] then [[]] else xs) else x # xs)"
| "under (m # ms) [] = None"
| "under (m # ms) (x # xs) = (if lower m = lower x then under ms xs else None)"

text \<open>A route of a mounted router: the mount path, then the route's path against the rest.\<close>

definition match_mounted :: "string \<Rightarrow> string \<Rightarrow> string \<Rightarrow> (string \<times> string) list option" where
  "match_mounted mount_path pat u =
     (case (map_option drop_last_empty (pieces_of mount_path), parse_pattern pat,
            pieces_of (pathname u)) of
        (Some ms, Some ps, Some xs) \<Rightarrow>
          (case (if ms = [] then Some xs else under ms xs) of
             None \<Rightarrow> None
           | Some rest \<Rightarrow> match_segs ps rest)
      | _ \<Rightarrow> None)"

text \<open>
  The framework's path matching as one function of the mount path (empty for a route on
  the application), the route path and the request target.
\<close>

type_synonym matcher = "string \<Rightarrow> string \<Rightarrow> string \<Rightarrow> (string \<times> string) list option"

definition express_match :: matcher where
  "express_match mount_path pat u =
     (if mount_path = [] then match_route pat u else match_mounted mount_path pat u)"

section \<open>The middleware chain\<close>

text \<open>
  The framework, to the extent the lesson relies on it and as the README states it:
  "Order matters in Express. Middleware is evaluated top-to-bottom"; a route runs when
  the method and the path match; a plain middleware runs for every request; after
  \<^verbatim>\<open>next(err)\<close> only error middleware \<^verbatim>\<open>(err, req, res, next)\<close> runs, every other stage is
  skipped; an exception thrown by a handler is caught by the framework and delegated as
  \<^verbatim>\<open>next(err)\<close> would; and for an \<^verbatim>\<open>async\<close> handler whose promise rejects, "Error
  middleware is NOT called". The chain takes the path matching as its first argument.
  \<open>ran\<close> records the positions of the stages whose function was called.
\<close>

fun invoke ::
  "matcher \<Rightarrow> stage \<Rightarrow> js_error option \<Rightarrow> request \<Rightarrow> Note list \<Rightarrow> (action \<times> Note list) option" where
  "invoke mr (Route m pat h) None req s =
     (if req_method req = m
      then (case mr [] pat (url req) of
              None \<Rightarrow> None
            | Some ps \<Rightarrow> Some (h (req\<lparr>params := ps\<rparr>) s))
      else None)"
| "invoke mr (Mounted mp m pat h) None req s =
     (if req_method req = m
      then (case mr mp pat (url req) of
              None \<Rightarrow> None
            | Some ps \<Rightarrow> Some (h (req\<lparr>params := ps\<rparr>) s))
      else None)"
| "invoke mr (Use h) None req s = Some (h req s)"
| "invoke mr (Use_err eh) None req s = None"
| "invoke mr (Use_err eh) (Some e) req s = Some (eh e req s)"
| "invoke mr (Route m pat h) (Some e) req s = None"
| "invoke mr (Mounted mp m pat h) (Some e) req s = None"
| "invoke mr (Use h) (Some e) req s = None"

definition ran_cons :: "nat \<Rightarrow> result \<Rightarrow> result" where
  "ran_cons i r = r\<lparr>ran := i # ran r\<rparr>"

fun run ::
  "matcher \<Rightarrow> stage list \<Rightarrow> nat \<Rightarrow> js_error option \<Rightarrow> request \<Rightarrow> Note list \<Rightarrow> result" where
  "run mr [] i None req s = \<lparr>outcome = Fell_through, store = s, ran = []\<rparr>"
| "run mr [] i (Some e) req s = \<lparr>outcome = Fell_through_err e, store = s, ran = []\<rparr>"
| "run mr (st # rest) i pending req s =
     (case invoke mr st pending req s of
        None \<Rightarrow> run mr rest (Suc i) pending req s
      | Some (Respond r, s') \<Rightarrow> \<lparr>outcome = Sent r, store = s', ran = [i]\<rparr>
      | Some (Respond_no_body c, s') \<Rightarrow> \<lparr>outcome = Sent_no_body c, store = s', ran = [i]\<rparr>
      | Some (Next, s') \<Rightarrow> ran_cons i (run mr rest (Suc i) None req s')
      | Some (Next_err e, s') \<Rightarrow> ran_cons i (run mr rest (Suc i) (Some e) req s')
      | Some (Threw e, s') \<Rightarrow> ran_cons i (run mr rest (Suc i) (Some e) req s')
      | Some (Rejected e, s') \<Rightarrow> \<lparr>outcome = Unhandled_rejection e, store = s', ran = [i]\<rparr>)"

text \<open>A request served by a chain, with the path matching of Express 4.\<close>

definition handle :: "stage list \<Rightarrow> request \<Rightarrow> Note list \<Rightarrow> result" where
  "handle chain req s = run express_match chain 0 None req s"

text \<open>
  \<^verbatim>\<open>app.use("/notes", notesRoute)\<close>: a router is the list of its routes, and mounting it
  registers each of them under the mount path, in the router's order.
\<close>

type_synonym router = "(http_method \<times> string \<times> handler) list"

definition use_router :: "string \<Rightarrow> router \<Rightarrow> stage list" where
  "use_router mount_path r = map (\<lambda>(m, p, h). Mounted mount_path m p h) r"

section \<open>The handlers\<close>

definition note_json :: "Note \<Rightarrow> json" where
  "note_json n =
     JObject [(''id'', JString (note_id n)), (''title'', JString (title n)), (''body'', JString (body n))]"

text \<open>app.js: \<^verbatim>\<open>app.get("/hello", (req, res) => { res.json({ message: "Hello" }); })\<close>\<close>

definition hello :: handler where
  "hello req s = (Respond (res_json (JObject [(''message'', JString ''Hello'')])), s)"

text \<open>routes/notes.js: \<^verbatim>\<open>const notes = [...]\<close>, the content of the module-level array at start.\<close>

definition notes_init :: "Note list" where
  "notes_init =
     [\<lparr>note_id = ''1'', title = ''Grocery'', body = ''Buy milk''\<rparr>,
      \<lparr>note_id = ''2'', title = ''Workout'', body = ''Leg day''\<rparr>]"

text \<open>\<^verbatim>\<open>router.get("/", (req, res) => { res.json(notes); })\<close>\<close>

definition notes_index :: handler where
  "notes_index req s = (Respond (res_json (JArray (map note_json s))), s)"

text \<open>\<^verbatim>\<open>notes.find(n => n.id === id)\<close>; the identifier is absent when the route bound none.\<close>

definition find_note :: "Note list \<Rightarrow> string option \<Rightarrow> Note option" where
  "find_note ns i = List.find (\<lambda>n. Some (note_id n) = i) ns"

text \<open>
  \<^verbatim>\<open>router.get("/:id", ...)\<close>: on a miss it builds \<^verbatim>\<open>new Error("Note not found")\<close>, sets
  \<^verbatim>\<open>err.status = 404\<close> and returns \<^verbatim>\<open>next(err)\<close>; on a hit \<^verbatim>\<open>res.json(note)\<close>.
\<close>

definition notes_show :: handler where
  "notes_show req s =
     (case find_note s (map_of (params req) ''id'') of
        None \<Rightarrow> (Next_err \<lparr>message = ''Note not found'', status = Some 404\<rparr>, s)
      | Some n \<Rightarrow> (Respond (res_json (note_json n)), s))"

text \<open>
  \<^verbatim>\<open>getNoteFromDB(id)\<close>: the promise's outcome, \<open>Inl\<close> when it rejects and \<open>Inr\<close> when it
  resolves (the one-second timer is not modelled). It searches an array of its own.
\<close>

definition getNoteFromDB :: "string option \<Rightarrow> js_error + Note" where
  "getNoteFromDB i =
     (let notes' =
        [\<lparr>note_id = ''1'', title = ''Grocery'', body = ''Buy milk''\<rparr>,
         \<lparr>note_id = ''2'', title = ''Workout'', body = ''Leg day''\<rparr>]
      in case find_note notes' i of
           None \<Rightarrow> Inl \<lparr>message = ''Note not found in database'', status = None\<rparr>
         | Some n \<Rightarrow> Inr n)"

text \<open>
  \<^verbatim>\<open>router.get("/async-notes/:id", async (req, res) => { ... })\<close>: the awaited call has
  no try/catch, so a rejection rejects the handler's own promise.
\<close>

definition async_notes :: handler where
  "async_notes req s =
     (case getNoteFromDB (map_of (params req) ''id'') of
        Inl e \<Rightarrow> (Rejected e, s)
      | Inr n \<Rightarrow> (Respond (res_json (note_json n)), s))"

definition notesRoute :: router where
  "notesRoute =
     [(GET, ''/'', notes_index), (GET, ''/:id'', notes_show), (GET, ''/async-notes/:id'', async_notes)]"

text \<open>app.js as shipped: the hello route and the mounted router; steps 4 and 5 are empty.\<close>

definition app :: "stage list" where
  "app = Route GET ''/hello'' hello # use_router ''/notes'' notesRoute"

section \<open>The lesson's middleware (README.md)\<close>

text \<open>
  Step 3 of Section 2, the catch-all placed after the routes:
  \<^verbatim>\<open>new Error(`Route not found: ${req.method} ${req.url}`)\<close>, \<^verbatim>\<open>err.status = 404\<close>,
  \<^verbatim>\<open>next(err)\<close>.
\<close>

definition route_not_found :: handler where
  "route_not_found req s =
     (Next_err \<lparr>message = ''Route not found: '' @ method_name (req_method req) @ '' '' @ url req,
                status = Some 404\<rparr>, s)"

definition error_json :: "string \<Rightarrow> int \<Rightarrow> json" where
  "error_json m c = JObject [(''error'', JObject [(''message'', JString m), (''status'', JNumber c)])]"

text \<open>
  Step 2 of Section 2, the error middleware placed at the very end:
  \<^verbatim>\<open>const statusCode = err.status || 500\<close>, then
  \<^verbatim>\<open>res.status(statusCode).json({ error: { message: err.message, status: statusCode } })\<close>.
\<close>

definition error_middleware :: error_handler where
  "error_middleware err req s =
     (let statusCode = js_or (status err) 500
      in (res_status_json statusCode (error_json (message err) statusCode), s))"

text \<open>
  Modelled from the spec: the \<^verbatim>\<open>AppError\<close> class. The README calls
  \<^verbatim>\<open>new AppError(message, status)\<close> and no file of the repository declares the class; the
  specification describes its values as a message with an integer HTTP status.
\<close>

definition AppError :: "string \<Rightarrow> int \<Rightarrow> js_error" where
  "AppError m c = \<lparr>message = m, status = Some c\<rparr>"

text \<open>
  The optional extension, \<^verbatim>\<open>app.post("/notes", ...)\<close>, with the store for its \<^verbatim>\<open>notes\<close>:
  \<^verbatim>\<open>const { title, body } = req.body\<close>; when \<^verbatim>\<open>!title || !body\<close> it returns
  \<^verbatim>\<open>next(new AppError("title and body required", 400))\<close>; otherwise it builds
  \<^verbatim>\<open>{ id: String(notes.length + 1), title, body }\<close>, pushes it and answers
  \<^verbatim>\<open>res.status(201).json(newNote)\<close>.
\<close>

definition post_notes :: handler where
  "post_notes req s =
     (let title' = map_of (req_body req) ''title'';
          body' = map_of (req_body req) ''body''
      in if falsy title' \<or> falsy body'
         then (Next_err (AppError ''title and body required'' 400), s)
         else (let newNote = \<lparr>note_id = String_nat (length s + 1),
                               title = the title', body = the body'\<rparr>
               in (res_status_json 201 (note_json newNote), s @ [newNote])))"

text \<open>
  Step 4 of Section 2, the corrected async route: the awaited call is wrapped in
  try/catch, and the catch sets \<^verbatim>\<open>err.status = 404\<close> and calls \<^verbatim>\<open>next(err)\<close>.
\<close>

definition async_notes_fixed :: handler where
  "async_notes_fixed req s =
     (case getNoteFromDB (map_of (params req) ''id'') of
        Inl e \<Rightarrow> (Next_err (e\<lparr>status := Some 404\<rparr>), s)
      | Inr n \<Rightarrow> (Respond (res_json (note_json n)), s))"

text \<open>
  The application the lesson builds: app.js with its numbered steps carried out by the
  README's snippets. The create-note route and the catch-all stand after the routes,
  the error middleware stands last.
\<close>

definition lesson_app :: "stage list" where
  "lesson_app =
     app @ [Route POST ''/notes'' post_notes, Use route_not_found, Use_err error_middleware]"

text \<open>
  A request matches a registered route, under a given path matching, when the route's
  method and path both fit.
\<close>

fun route_matches :: "matcher \<Rightarrow> stage \<Rightarrow> request \<Rightarrow> bool" where
  "route_matches mr (Route m pat h) req = (req_method req = m \<and> mr [] pat (url req) \<noteq> None)"
| "route_matches mr (Mounted mp m pat h) req = (req_method req = m \<and> mr mp pat (url req) \<noteq> None)"
| "route_matches mr (Use h) req = False"
| "route_matches mr (Use_err eh) req = False"

text \<open>
  A string that can stand as one path segment of a request target and is read back
  unchanged as a route parameter: not empty, and free of the characters that end a
  segment or the path, or start a percent-escape.
\<close>

definition segment_ok :: "string \<Rightarrow> bool" where
  "segment_ok j =
     (j \<noteq> [] \<and> CHR ''/'' \<notin> set j \<and> CHR ''?'' \<notin> set j \<and> CHR ''#'' \<notin> set j \<and> CHR ''%'' \<notin> set j)"

text \<open>The request targets \<^verbatim>\<open>/notes/<id>\<close> and \<^verbatim>\<open>/notes/async-notes/<id>\<close>.\<close>

definition notes_url :: "string \<Rightarrow> string" where
  "notes_url i = ''/notes/'' @ i"

definition async_notes_url :: "string \<Rightarrow> string" where
  "async_notes_url i = ''/notes/async-notes/'' @ i"

definition get_request :: "string \<Rightarrow> request" where
  "get_request u = \<lparr>req_method = GET, url = u, params = [], req_body = []\<rparr>"

definition post_request :: "string \<Rightarrow> (string \<times> string) list \<Rightarrow> request" where
  "post_request u b = \<lparr>req_method = POST, url = u, params = [], req_body = b\<rparr>"

text \<open>
  The stores the application can be in: the store as seeded, and the store after any
  sequence of requests served by the lesson's application.
\<close>

fun serve :: "request list \<Rightarrow> Note list \<Rightarrow> Note list" where
  "serve [] s = s"
| "serve (r # rs) s = serve rs (store (handle lesson_app r s))"

definition reachable :: "Note list \<Rightarrow> bool" where
  "reachable s = (\<exists>rs. s = serve rs notes_init)"

definition decimal :: "string \<Rightarrow> bool" where
  "decimal i = (i \<noteq> [] \<and> set i \<subseteq> set ''0123456789'')"

definition store_inv :: "Note list \<Rightarrow> bool" where
  "store_inv s = ((\<exists>ext. s = notes_init @ ext) \<and> list_all (\<lambda>n. decimal (note_id n)) s)"

text \<open>
  The number a string of decimal digits denotes, read from the most significant digit:
  the reading against which \<^verbatim>\<open>String(n)\<close> is checked.
\<close>

definition digit_value :: "char \<Rightarrow> nat" where
  "digit_value c = length (takeWhile (\<lambda>d. d \<noteq> c) ''0123456789'')"

definition decimal_value :: "string \<Rightarrow> nat" where
  "decimal_value ds = foldl (\<lambda>acc c. 10 * acc + digit_value c) 0 ds"

section \<open>Splitting paths\<close>

lemma split_slash_no_slash: "CHR ''/'' \<notin> set j \<Longrightarrow> split_slash j = [j]"
  by (induction j) auto

lemma pathname_segment:
  "segment_ok j \<Longrightarrow> takeWhile (\<lambda>c. c \<noteq> CHR ''?'' \<and> c \<noteq> CHR ''#'') j = j"
  by (auto simp: segment_ok_def takeWhile_eq_all_conv)

lemma pieces_notes_url:
  assumes "segment_ok j"
  shows "pieces_of (pathname (notes_url j)) = Some [''notes'', j]"
proof -
  have tw: "takeWhile (\<lambda>c. c \<noteq> CHR ''?'' \<and> c \<noteq> CHR ''#'') j = j"
    using assms by (rule pathname_segment)
  have ns: "CHR ''/'' \<notin> set j"
    using assms by (simp add: segment_ok_def)
  show ?thesis
    by (simp add: notes_url_def pieces_of_def pathname_def tw split_slash_no_slash [OF ns])
qed

lemma pieces_async_notes_url:
  assumes "segment_ok j"
  shows "pieces_of (pathname (async_notes_url j)) = Some [''notes'', ''async-notes'', j]"
proof -
  have tw: "takeWhile (\<lambda>c. c \<noteq> CHR ''?'' \<and> c \<noteq> CHR ''#'') j = j"
    using assms by (rule pathname_segment)
  have ns: "CHR ''/'' \<notin> set j"
    using assms by (simp add: segment_ok_def)
  show ?thesis
    by (simp add: async_notes_url_def pieces_of_def pathname_def tw split_slash_no_slash [OF ns])
qed

lemma pieces_literal:
  "pieces_of (pathname ''/notes'') = Some [''notes'']"
  "pieces_of (pathname ''/notes/async-notes'') = Some [''notes'', ''async-notes'']"
  "pieces_of (pathname ''/does-not-exist'') = Some [''does-not-exist'']"
  "pieces_of (pathname ''/does-not-exist?x=1'') = Some [''does-not-exist'']"
  "pieces_of (pathname ''//hello'') = Some ['''', ''hello'']"
  "pieces_of (pathname ''/hello//'') = Some [''hello'', '''', '''']"
  "pieces_of (pathname ''/hello/'') = Some [''hello'', '''']"
  "pieces_of (pathname ''/notes//1'') = Some [''notes'', '''', ''1'']"
  by (simp_all add: pieces_of_def pathname_def)

lemma lowers:
  "lower ''hello'' = ''hello''"
  "lower ''notes'' = ''notes''"
  "lower ''async-notes'' = ''async-notes''"
  "lower ''does-not-exist'' = ''does-not-exist''"
  "lower ''1'' = ''1''"
  "lower [] = []"
  by (simp_all add: lower_def lower_char_def)

lemma patterns:
  "parse_pattern ''/hello'' = Some [Lit ''hello'']"
  "parse_pattern ''/notes'' = Some [Lit ''notes'']"
  "parse_pattern ''/'' = Some []"
  "parse_pattern ''/:id'' = Some [Param ''id'']"
  "parse_pattern ''/async-notes/:id'' = Some [Lit ''async-notes'', Param ''id'']"
  by (simp_all add: parse_pattern_def pieces_of_def drop_last_empty_def seg_of_def)

lemma mount_notes: "map_option drop_last_empty (pieces_of ''/notes'') = Some [''notes'']"
  by (simp add: pieces_of_def drop_last_empty_def)

lemma app_stages:
  "app =
     [Route GET ''/hello'' hello,
      Mounted ''/notes'' GET ''/'' notes_index,
      Mounted ''/notes'' GET ''/:id'' notes_show,
      Mounted ''/notes'' GET ''/async-notes/:id'' async_notes]"
  by (simp add: app_def use_router_def notesRoute_def)

lemma lesson_app_stages:
  "lesson_app =
     [Route GET ''/hello'' hello,
      Mounted ''/notes'' GET ''/'' notes_index,
      Mounted ''/notes'' GET ''/:id'' notes_show,
      Mounted ''/notes'' GET ''/async-notes/:id'' async_notes,
      Route POST ''/notes'' post_notes,
      Use route_not_found,
      Use_err error_middleware]"
  by (simp add: lesson_app_def app_stages)

section \<open>Which route takes which request\<close>

lemma match_notes_url:
  assumes "segment_ok j"
  shows "express_match [] ''/hello'' (notes_url j) = None"
    and "express_match ''/notes'' ''/'' (notes_url j) = None"
    and "express_match ''/notes'' ''/:id'' (notes_url j) = Some [(''id'', j)]"
proof -
  have ne: "j \<noteq> []"
    using assms by (simp add: segment_ok_def)
  show "express_match [] ''/hello'' (notes_url j) = None"
    by (simp add: express_match_def match_route_def pieces_notes_url [OF assms] patterns lowers)
  show "express_match ''/notes'' ''/'' (notes_url j) = None"
    by (simp add: express_match_def match_mounted_def pieces_notes_url [OF assms] patterns
        mount_notes lowers ne)
  show "express_match ''/notes'' ''/:id'' (notes_url j) = Some [(''id'', j)]"
    by (simp add: express_match_def match_mounted_def pieces_notes_url [OF assms] patterns
        mount_notes lowers ne)
qed

lemma match_async_notes_url:
  assumes "segment_ok j"
  shows "express_match [] ''/hello'' (async_notes_url j) = None"
    and "express_match ''/notes'' ''/'' (async_notes_url j) = None"
    and "express_match ''/notes'' ''/:id'' (async_notes_url j) = None"
    and "express_match ''/notes'' ''/async-notes/:id'' (async_notes_url j) = Some [(''id'', j)]"
proof -
  have ne: "j \<noteq> []"
    using assms by (simp add: segment_ok_def)
  show "express_match [] ''/hello'' (async_notes_url j) = None"
    by (simp add: express_match_def match_route_def pieces_async_notes_url [OF assms] patterns lowers)
  show "express_match ''/notes'' ''/'' (async_notes_url j) = None"
    by (simp add: express_match_def match_mounted_def pieces_async_notes_url [OF assms] patterns
        mount_notes lowers)
  show "express_match ''/notes'' ''/:id'' (async_notes_url j) = None"
    by (simp add: express_match_def match_mounted_def pieces_async_notes_url [OF assms] patterns
        mount_notes lowers ne)
  show "express_match ''/notes'' ''/async-notes/:id'' (async_notes_url j) = Some [(''id'', j)]"
    by (simp add: express_match_def match_mounted_def pieces_async_notes_url [OF assms] patterns
        mount_notes lowers ne)
qed

lemma match_notes:
  "express_match [] ''/hello'' ''/notes'' = None"
  "express_match ''/notes'' ''/'' ''/notes'' = Some []"
  "express_match [] ''/notes'' ''/notes'' = Some []"
  by (simp_all add: express_match_def match_route_def match_mounted_def pieces_literal patterns
      mount_notes lowers)

lemma match_notes_async:
  "express_match [] ''/hello'' ''/notes/async-notes'' = None"
  "express_match ''/notes'' ''/'' ''/notes/async-notes'' = None"
  "express_match ''/notes'' ''/:id'' ''/notes/async-notes'' = Some [(''id'', ''async-notes'')]"
  "express_match ''/notes'' ''/async-notes/:id'' ''/notes/async-notes'' = None"
  by (simp_all add: express_match_def match_route_def match_mounted_def pieces_literal patterns
      mount_notes lowers)





lemma match_one_slash_end: "express_match [] ''/hello'' ''/hello/'' = Some []"
  by (simp add: express_match_def match_route_def pieces_literal patterns lowers)

text \<open>
  Of two slashes right after the mount path the first goes with the mount path, as the
  mount's expression \<^verbatim>\<open>^\/notes\/?(?=\/|$)\<close> takes it.
\<close>

lemma match_slash_after_mount:
  "express_match ''/notes'' ''/:id'' ''/notes//1'' = Some [(''id'', ''1'')]"
  by (simp add: express_match_def match_mounted_def pieces_literal patterns mount_notes lowers)

lemma invoke_unmatched:
  "\<not> route_matches mr (Route m pat h) req \<Longrightarrow> invoke mr (Route m pat h) None req s = None"
  "\<not> route_matches mr (Mounted mp m pat h) req \<Longrightarrow> invoke mr (Mounted mp m pat h) None req s = None"
  by (auto split: option.splits)

lemma find_note_None: "find_note s (Some j) = None \<longleftrightarrow> j \<notin> note_id ` set s"
  by (auto simp: find_note_def find_None_iff)

lemma find_note_Some:
  "find_note s (Some i) = Some n \<Longrightarrow> n \<in> set s \<and> note_id n = i"
  by (auto simp: find_note_def find_Some_iff)

lemma getNoteFromDB_miss:
  "i \<noteq> ''1'' \<Longrightarrow> i \<noteq> ''2'' \<Longrightarrow>
   getNoteFromDB (Some i) = Inl \<lparr>message = ''Note not found in database'', status = None\<rparr>"
  by (auto simp: getNoteFromDB_def find_note_def)

section \<open>Sending a status and a body\<close>

lemma int32_id: "- 2147483648 \<le> k \<Longrightarrow> k < 2147483648 \<Longrightarrow> int32 k = k"
  by (simp add: int32_def)

lemma res_status_json_body:
  assumes "200 \<le> k" and "k \<le> 999" and "k \<noteq> 204" and "k \<noteq> 205" and "k \<noteq> 304"
  shows "res_status_json k v = Respond \<lparr>statusCode = k, sent = v\<rparr>"
proof -
  have "int32 k = k"
    using assms by (intro int32_id) simp_all
  then show ?thesis
    using assms by (simp add: res_status_json_def)
qed

lemma res_status_json_bare:
  assumes "(100 \<le> k \<and> k \<le> 199) \<or> k = 204 \<or> k = 205 \<or> k = 304"
  shows "res_status_json k v = Respond_no_body k"
proof -
  have "int32 k = k"
    using assms by (intro int32_id) auto
  then show ?thesis
    using assms by (auto simp: res_status_json_def)
qed

lemma res_status_json_common:
  "res_status_json 201 v = Respond \<lparr>statusCode = 201, sent = v\<rparr>"
  "res_status_json 400 v = Respond \<lparr>statusCode = 400, sent = v\<rparr>"
  "res_status_json 404 v = Respond \<lparr>statusCode = 404, sent = v\<rparr>"
  "res_status_json 500 v = Respond \<lparr>statusCode = 500, sent = v\<rparr>"
  by (simp_all add: res_status_json_body)

text \<open>
  Outside the codes that carry a body: 204 is sent bare, a code below 100 makes the
  write throw, and a code beyond 32 bits is sent as what it wraps to.
\<close>

lemma res_status_json_other:
  "res_status_json 204 v = Respond_no_body 204"
  "res_status_json 304 v = Respond_no_body 304"
  "res_status_json 100 v = Respond_no_body 100"
  "res_status_json (- 1) v = Threw \<lparr>message = ''Invalid status code: -1'', status = None\<rparr>"
  "res_status_json 4294967700 v = Respond \<lparr>statusCode = 404, sent = v\<rparr>"
  by (simp_all add: res_status_json_def int32_def String_int_def String_nat.simps digit_char_def)

section \<open>The stores the application reaches\<close>

text \<open>
  Every request leaves the store as it was or appends one note whose id is the decimal
  string of the new length. So every reachable store starts with the seeded notes, and
  all its ids are non-empty strings of decimal digits.
\<close>

lemma String_nat_small: "n < 10 \<Longrightarrow> String_nat n = [digit_char n]"
  by (simp add: String_nat.simps)

lemma digit_char_digit: "d < 10 \<Longrightarrow> digit_char d \<in> set ''0123456789''"
  unfolding digit_char_def by (rule nth_mem) simp

lemma String_nat_digits: "set (String_nat n) \<subseteq> set ''0123456789''"
proof (induction n rule: String_nat.induct)
  case (1 n)
  show ?case
  proof (cases "n < 10")
    case True
    then show ?thesis
      using digit_char_digit [of n] by (subst String_nat.simps) simp
  next
    case False
    have "digit_char (n mod 10) \<in> set ''0123456789''"
      by (rule digit_char_digit) simp
    with False 1 show ?thesis
      by (subst String_nat.simps) simp
  qed
qed

lemma String_nat_not_empty: "String_nat n \<noteq> []"
  by (subst String_nat.simps) simp

lemma decimal_String_nat: "decimal (String_nat n)"
  using String_nat_digits [of n] String_nat_not_empty [of n] by (simp add: decimal_def)

lemma decimal_segment_ok: "decimal i \<Longrightarrow> segment_ok i"
  by (auto simp: decimal_def segment_ok_def)

lemma String_nat_12: "String_nat 12 = ''12''"
  by (simp add: String_nat.simps [of 12] String_nat_small digit_char_def)

text \<open>\<^verbatim>\<open>String(n)\<close> read back as a decimal numeral is \<open>n\<close>, and it has no leading zero.\<close>

lemma digit_value_digit_char: "d < 10 \<Longrightarrow> digit_value (digit_char d) = d"
proof -
  assume "d < 10"
  then have "d \<in> {0, 1, 2, 3, 4, 5, 6, 7, 8, 9}"
    by auto
  then show ?thesis
    by (auto simp: digit_value_def digit_char_def)
qed

lemma decimal_value_snoc: "decimal_value (ds @ [c]) = 10 * decimal_value ds + digit_value c"
  by (simp add: decimal_value_def)

lemma decimal_value_String_nat: "decimal_value (String_nat n) = n"
proof (induction n rule: String_nat.induct)
  case (1 n)
  show ?case
  proof (cases "n < 10")
    case True
    then show ?thesis
      by (simp add: String_nat_small decimal_value_def digit_value_digit_char)
  next
    case False
    then have "String_nat n = String_nat (n div 10) @ [digit_char (n mod 10)]"
      by (subst String_nat.simps) simp
    moreover have "decimal_value (String_nat (n div 10)) = n div 10"
      using False 1 by simp
    moreover have "digit_value (digit_char (n mod 10)) = n mod 10"
      by (rule digit_value_digit_char) simp
    ultimately show ?thesis
      by (simp add: decimal_value_snoc)
  qed
qed

lemma hd_String_nat: "0 < n \<Longrightarrow> hd (String_nat n) \<noteq> CHR ''0''"
proof (induction n rule: String_nat.induct)
  case (1 n)
  show ?case
  proof (cases "n < 10")
    case True
    with 1(2) have "n \<in> {1, 2, 3, 4, 5, 6, 7, 8, 9}"
      by auto
    then show ?thesis
      by (auto simp: String_nat_small digit_char_def)
  next
    case False
    then have eq: "String_nat n = String_nat (n div 10) @ [digit_char (n mod 10)]"
      by (subst String_nat.simps) simp
    from False have "0 < n div 10"
      by simp
    with False 1(1) have "hd (String_nat (n div 10)) \<noteq> CHR ''0''"
      by simp
    then show ?thesis
      by (simp add: eq String_nat_not_empty)
  qed
qed

lemma handle_store:
  "store (handle lesson_app req s) = s \<or>
   (\<exists>T B. store (handle lesson_app req s) =
      s @ [\<lparr>note_id = String_nat (length s + 1), title = T, body = B\<rparr>])"
  unfolding handle_def lesson_app_stages
  by (simp add: hello_def notes_index_def notes_show_def async_notes_def post_notes_def
      route_not_found_def error_middleware_def AppError_def js_or_def res_status_json_common
      ran_cons_def Let_def
      split: option.splits sum.splits)

lemma store_inv_init: "store_inv notes_init"
  by (simp add: store_inv_def notes_init_def decimal_def)

lemma store_inv_handle:
  assumes "store_inv s"
  shows "store_inv (store (handle lesson_app req s))"
proof -
  from handle_store [of req s] show ?thesis
  proof
    assume "store (handle lesson_app req s) = s"
    with assms show ?thesis by simp
  next
    assume "\<exists>T B. store (handle lesson_app req s) =
      s @ [\<lparr>note_id = String_nat (length s + 1), title = T, body = B\<rparr>]"
    then obtain T B where
      st: "store (handle lesson_app req s) =
        s @ [\<lparr>note_id = String_nat (length s + 1), title = T, body = B\<rparr>]"
      by blast
    from assms obtain ext where "s = notes_init @ ext"
      by (auto simp: store_inv_def)
    then have "s @ [\<lparr>note_id = String_nat (length s + 1), title = T, body = B\<rparr>] =
        notes_init @ (ext @ [\<lparr>note_id = String_nat (length s + 1), title = T, body = B\<rparr>])"
      by simp
    then have "\<exists>ext'. s @ [\<lparr>note_id = String_nat (length s + 1), title = T, body = B\<rparr>] =
        notes_init @ ext'"
      by blast
    moreover have "list_all (\<lambda>n. decimal (note_id n))
        (s @ [\<lparr>note_id = String_nat (length s + 1), title = T, body = B\<rparr>])"
      using assms by (simp add: store_inv_def decimal_String_nat)
    ultimately show ?thesis
      unfolding st store_inv_def by blast
  qed
qed

lemma store_inv_serve: "store_inv s \<Longrightarrow> store_inv (serve rs s)"
  by (induction rs arbitrary: s) (simp_all add: store_inv_handle)

lemma reachable_inv: "reachable s \<Longrightarrow> store_inv s"
  by (auto simp: reachable_def store_inv_serve store_inv_init)

lemma reachable_init: "reachable notes_init"
  unfolding reachable_def by (rule exI [of _ "[]"]) simp

lemma reachable_ids_ok:
  assumes "reachable s" and "i \<in> note_id ` set s"
  shows "segment_ok i"
proof -
  from assms(1) have "list_all (\<lambda>n. decimal (note_id n)) s"
    using reachable_inv by (simp add: store_inv_def)
  with assms(2) have "decimal i"
    by (auto simp: list_all_iff)
  then show ?thesis by (rule decimal_segment_ok)
qed

lemma reachable_no_async_notes:
  assumes "reachable s"
  shows "''async-notes'' \<notin> note_id ` set s"
proof
  assume "''async-notes'' \<in> note_id ` set s"
  moreover from assms have "list_all (\<lambda>n. decimal (note_id n)) s"
    using reachable_inv by (simp add: store_inv_def)
  ultimately have "decimal ''async-notes''"
    by (auto simp: list_all_iff)
  then show False by (simp add: decimal_def)
qed

lemma reachable_keeps_seed:
  assumes "reachable s" and "i \<notin> note_id ` set s"
  shows "i \<noteq> ''1'' \<and> i \<noteq> ''2''"
proof -
  from assms(1) obtain ext where "s = notes_init @ ext"
    using reachable_inv by (auto simp: store_inv_def)
  with assms(2) show ?thesis
    by (auto simp: notes_init_def)
qed

section \<open>The not-found interceptor\<close>




section \<open>Lookup by id\<close>

lemma note_in_store:
  "i \<in> note_id ` set s \<Longrightarrow> \<exists>n. find_note s (Some i) = Some n"
  by (cases "find_note s (Some i)") (auto simp: find_note_None)

text \<open>
  Claim C5. For every id \<open>i\<close> that some note of the store has, \<^verbatim>\<open>GET /notes/i\<close> is
  answered with status 200 and the JSON of that note, the first one in the store whose
  id is \<open>i\<close>: the object \<^verbatim>\<open>{id: i, title: <its title>, body: <its body>}\<close>. This holds in
  every store the application reaches, and in any store at all for an id that can stand
  as the \<^verbatim>\<open>:id\<close> segment of the path; for app.js as shipped and for the lesson's
  application. The store is unchanged, and only the \<^verbatim>\<open>/:id\<close> handler (position 2) runs.
\<close>

theorem existing_note_response:
  assumes "i \<in> note_id ` set s" and "segment_ok i \<or> reachable s"
  shows "\<exists>n. n \<in> set s \<and> note_id n = i \<and> find_note s (Some i) = Some n \<and>
     handle app (get_request (notes_url i)) s =
       \<lparr>outcome = Sent \<lparr>statusCode = 200,
          sent = JObject [(''id'', JString i), (''title'', JString (title n)), (''body'', JString (body n))]\<rparr>,
        store = s, ran = [2]\<rparr> \<and>
     handle lesson_app (get_request (notes_url i)) s =
       \<lparr>outcome = Sent \<lparr>statusCode = 200,
          sent = JObject [(''id'', JString i), (''title'', JString (title n)), (''body'', JString (body n))]\<rparr>,
        store = s, ran = [2]\<rparr>"
proof -
  have ok: "segment_ok i"
    using assms reachable_ids_ok by blast
  from assms(1) obtain n where hit: "find_note s (Some i) = Some n"
    using note_in_store by blast
  have mem: "n \<in> set s \<and> note_id n = i"
    using hit by (rule find_note_Some)
  have shipped: "handle app (get_request (notes_url i)) s =
       \<lparr>outcome = Sent \<lparr>statusCode = 200,
          sent = JObject [(''id'', JString i), (''title'', JString (title n)), (''body'', JString (body n))]\<rparr>,
        store = s, ran = [2]\<rparr>"
    unfolding handle_def app_stages
    using mem
    by (simp add: get_request_def match_notes_url [OF ok] hit notes_show_def res_json_def note_json_def)
  have lesson: "handle lesson_app (get_request (notes_url i)) s =
       \<lparr>outcome = Sent \<lparr>statusCode = 200,
          sent = JObject [(''id'', JString i), (''title'', JString (title n)), (''body'', JString (body n))]\<rparr>,
        store = s, ran = [2]\<rparr>"
    unfolding handle_def lesson_app_stages
    using mem
    by (simp add: get_request_def match_notes_url [OF ok] hit notes_show_def res_json_def note_json_def)
  show ?thesis
    using mem hit shipped lesson by blast
qed

text \<open>\<^verbatim>\<open>GET /notes/2\<close> on the seeded store returns the Workout note.\<close>

theorem existing_note_response_witness:
  "''2'' \<in> note_id ` set notes_init \<and> segment_ok ''2'' \<and> reachable notes_init \<and>
   handle app (get_request ''/notes/2'') notes_init =
     \<lparr>outcome = Sent \<lparr>statusCode = 200,
        sent = JObject [(''id'', JString ''2''), (''title'', JString ''Workout''), (''body'', JString ''Leg day'')]\<rparr>,
      store = notes_init, ran = [2]\<rparr> \<and>
   handle lesson_app (get_request ''/notes/2'') notes_init =
     \<lparr>outcome = Sent \<lparr>statusCode = 200,
        sent = JObject [(''id'', JString ''2''), (''title'', JString ''Workout''), (''body'', JString ''Leg day'')]\<rparr>,
      store = notes_init, ran = [2]\<rparr>"
proof -
  have ok: "segment_ok ''2''" by (simp add: segment_ok_def)
  have inn: "''2'' \<in> note_id ` set notes_init" by (simp add: notes_init_def)
  have either: "segment_ok ''2'' \<or> reachable notes_init" using ok by simp
  have found: "find_note notes_init (Some ''2'') =
      Some \<lparr>note_id = ''2'', title = ''Workout'', body = ''Leg day''\<rparr>"
    by (simp add: find_note_def notes_init_def)
  show ?thesis
    using ok inn reachable_init existing_note_response [OF inn either]
    by (auto simp: notes_url_def found)
qed

text \<open>
  Claim C2. For every id \<open>j\<close> that no note of the store has (and that can stand as the
  \<^verbatim>\<open>:id\<close> segment of the path), \<^verbatim>\<open>GET /notes/j\<close> on the lesson's application is answered
  with status 404 and exactly the body
  \<^verbatim>\<open>{error: {message: "Note not found", status: 404}}\<close>: the \<^verbatim>\<open>/:id\<close> handler (position 2)
  delegates the error and the error middleware (position 6) shapes the response. In
  app.js as shipped the handler delegates the same error, and no stage answers it.
\<close>

theorem missing_note_response:
  assumes "segment_ok j" and "j \<notin> note_id ` set s"
  shows "handle lesson_app (get_request (notes_url j)) s =
     \<lparr>outcome = Sent \<lparr>statusCode = 404, sent = error_json ''Note not found'' 404\<rparr>,
      store = s, ran = [2, 6]\<rparr> \<and>
   error_json ''Note not found'' 404 =
     JObject [(''error'', JObject [(''message'', JString ''Note not found''), (''status'', JNumber 404)])] \<and>
   handle app (get_request (notes_url j)) s =
     \<lparr>outcome = Fell_through_err \<lparr>message = ''Note not found'', status = Some 404\<rparr>,
      store = s, ran = [2]\<rparr>"
proof -
  have miss: "find_note s (Some j) = None"
    using assms(2) by (simp add: find_note_None)
  have lesson: "handle lesson_app (get_request (notes_url j)) s =
     \<lparr>outcome = Sent \<lparr>statusCode = 404, sent = error_json ''Note not found'' 404\<rparr>,
      store = s, ran = [2, 6]\<rparr>"
    unfolding handle_def lesson_app_stages
    by (simp add: get_request_def match_notes_url [OF assms(1)] miss notes_show_def
        error_middleware_def js_or_def res_status_json_common ran_cons_def)
  have shipped: "handle app (get_request (notes_url j)) s =
     \<lparr>outcome = Fell_through_err \<lparr>message = ''Note not found'', status = Some 404\<rparr>,
      store = s, ran = [2]\<rparr>"
    unfolding handle_def app_stages
    by (simp add: get_request_def match_notes_url [OF assms(1)] miss notes_show_def ran_cons_def)
  show ?thesis
    using lesson shipped by (simp add: error_json_def)
qed

text \<open>The lesson's own test, \<^verbatim>\<open>GET /notes/999\<close>.\<close>

theorem missing_note_response_witness:
  "segment_ok ''999'' \<and> ''999'' \<notin> note_id ` set notes_init \<and>
   handle lesson_app (get_request ''/notes/999'') notes_init =
     \<lparr>outcome = Sent \<lparr>statusCode = 404, sent = error_json ''Note not found'' 404\<rparr>,
      store = notes_init, ran = [2, 6]\<rparr>"
proof -
  have ok: "segment_ok ''999''" by (simp add: segment_ok_def)
  have no: "''999'' \<notin> note_id ` set notes_init" by (simp add: notes_init_def)
  show ?thesis
    using ok no missing_note_response [OF ok no] by (simp add: notes_url_def)
qed

section \<open>Listing the notes\<close>

text \<open>
  Claim C6. On the store as seeded, before any append, \<^verbatim>\<open>GET /notes\<close> is answered with
  status 200 and the array of exactly the two seeded notes, Grocery first and Workout
  second; app.js as shipped and the lesson's application answer alike.
\<close>

theorem seeded_notes_listing:
  "handle app (get_request ''/notes'') notes_init =
     \<lparr>outcome = Sent \<lparr>statusCode = 200,
        sent = JArray
          [JObject [(''id'', JString ''1''), (''title'', JString ''Grocery''), (''body'', JString ''Buy milk'')],
           JObject [(''id'', JString ''2''), (''title'', JString ''Workout''), (''body'', JString ''Leg day'')]]\<rparr>,
      store = notes_init, ran = [1]\<rparr> \<and>
   handle lesson_app (get_request ''/notes'') notes_init = handle app (get_request ''/notes'') notes_init"
  unfolding handle_def app_stages lesson_app_stages
  by (simp add: get_request_def match_notes notes_index_def res_json_def note_json_def notes_init_def)

section \<open>The error middleware\<close>

text \<open>
  Claim C3, as the code has it. Reached with a pending error, the error middleware takes
  \<^verbatim>\<open>err.status || 500\<close> for the status and calls \<^verbatim>\<open>res.status(status).json(...)\<close> once. When
  the error's status is a code from 200 to 999 that carries a body (any but 204, 205
  and 304), exactly one response is sent, with that status and the body
  \<^verbatim>\<open>{error: {message: err.message, status: <that status>}}\<close>, and nothing after the
  middleware runs; when the status is absent (or zero) the response is the same with
  500 in both places; when the status is 1xx, 204, 205 or 304, one response is sent
  with that status and without a body. This holds whatever the path matching is.
\<close>

theorem error_middleware_response:
  "(status e = Some k \<and> 200 \<le> k \<and> k \<le> 999 \<and> k \<noteq> 204 \<and> k \<noteq> 205 \<and> k \<noteq> 304 \<longrightarrow>
      run mr (Use_err error_middleware # rest) i (Some e) req s =
        \<lparr>outcome = Sent \<lparr>statusCode = k,
           sent = JObject [(''error'', JObject
             [(''message'', JString (message e)), (''status'', JNumber k)])]\<rparr>,
         store = s, ran = [i]\<rparr>) \<and>
   (status e = None \<or> status e = Some 0 \<longrightarrow>
      run mr (Use_err error_middleware # rest) i (Some e) req s =
        \<lparr>outcome = Sent \<lparr>statusCode = 500,
           sent = JObject [(''error'', JObject
             [(''message'', JString (message e)), (''status'', JNumber 500)])]\<rparr>,
         store = s, ran = [i]\<rparr>) \<and>
   (status e = Some k \<and> ((100 \<le> k \<and> k \<le> 199) \<or> k = 204 \<or> k = 205 \<or> k = 304) \<longrightarrow>
      run mr (Use_err error_middleware # rest) i (Some e) req s =
        \<lparr>outcome = Sent_no_body k, store = s, ran = [i]\<rparr>)"
proof (intro conjI impI)
  assume a: "status e = Some k \<and> 200 \<le> k \<and> k \<le> 999 \<and> k \<noteq> 204 \<and> k \<noteq> 205 \<and> k \<noteq> 304"
  then have "k \<noteq> 0" by auto
  moreover have "res_status_json k (error_json (message e) k) =
      Respond \<lparr>statusCode = k, sent = error_json (message e) k\<rparr>"
    using a by (intro res_status_json_body) simp_all
  ultimately show "run mr (Use_err error_middleware # rest) i (Some e) req s =
        \<lparr>outcome = Sent \<lparr>statusCode = k,
           sent = JObject [(''error'', JObject
             [(''message'', JString (message e)), (''status'', JNumber k)])]\<rparr>,
         store = s, ran = [i]\<rparr>"
    using a by (simp add: error_middleware_def js_or_def error_json_def)
next
  assume "status e = None \<or> status e = Some 0"
  then have "js_or (status e) 500 = 500"
    by (auto simp: js_or_def)
  then show "run mr (Use_err error_middleware # rest) i (Some e) req s =
        \<lparr>outcome = Sent \<lparr>statusCode = 500,
           sent = JObject [(''error'', JObject
             [(''message'', JString (message e)), (''status'', JNumber 500)])]\<rparr>,
         store = s, ran = [i]\<rparr>"
    by (simp add: error_middleware_def res_status_json_common error_json_def)
next
  assume a: "status e = Some k \<and> ((100 \<le> k \<and> k \<le> 199) \<or> k = 204 \<or> k = 205 \<or> k = 304)"
  then have "k \<noteq> 0" by auto
  moreover have "res_status_json k (error_json (message e) k) = Respond_no_body k"
    using a by (intro res_status_json_bare) simp
  ultimately show "run mr (Use_err error_middleware # rest) i (Some e) req s =
        \<lparr>outcome = Sent_no_body k, store = s, ran = [i]\<rparr>"
    using a by (simp add: error_middleware_def js_or_def)
qed

text \<open>
  The errors of the lesson: a missing note with status 404, a validation failure with
  status 400, and a plain \<^verbatim>\<open>new Error("Something broke!")\<close> with no status; and an error
  whose status is 304.
\<close>

theorem error_middleware_response_witness:
  "run express_match [Use_err error_middleware] 6
      (Some \<lparr>message = ''Note not found'', status = Some 404\<rparr>)
      (get_request ''/notes/999'') notes_init =
     \<lparr>outcome = Sent \<lparr>statusCode = 404,
        sent = JObject [(''error'', JObject
          [(''message'', JString ''Note not found''), (''status'', JNumber 404)])]\<rparr>,
      store = notes_init, ran = [6]\<rparr> \<and>
   run express_match [Use_err error_middleware] 6
      (Some \<lparr>message = ''title and body required'', status = Some 400\<rparr>)
      (post_request ''/notes'' []) notes_init =
     \<lparr>outcome = Sent \<lparr>statusCode = 400,
        sent = JObject [(''error'', JObject
          [(''message'', JString ''title and body required''), (''status'', JNumber 400)])]\<rparr>,
      store = notes_init, ran = [6]\<rparr> \<and>
   run express_match [Use_err error_middleware] 6
      (Some \<lparr>message = ''Something broke!'', status = None\<rparr>)
      (get_request ''/crash'') notes_init =
     \<lparr>outcome = Sent \<lparr>statusCode = 500,
        sent = JObject [(''error'', JObject
          [(''message'', JString ''Something broke!''), (''status'', JNumber 500)])]\<rparr>,
      store = notes_init, ran = [6]\<rparr> \<and>
   run express_match [Use_err error_middleware] 6
      (Some \<lparr>message = ''Not modified'', status = Some 304\<rparr>)
      (get_request ''/hello'') notes_init =
     \<lparr>outcome = Sent_no_body 304, store = notes_init, ran = [6]\<rparr>"
  using error_middleware_response [of "\<lparr>message = ''Note not found'', status = Some 404\<rparr>" 404
          express_match "[]" 6 "get_request ''/notes/999''" notes_init]
        error_middleware_response [of "\<lparr>message = ''title and body required'', status = Some 400\<rparr>" 400
          express_match "[]" 6 "post_request ''/notes'' []" notes_init]
        error_middleware_response [of "\<lparr>message = ''Something broke!'', status = None\<rparr>" 0
          express_match "[]" 6 "get_request ''/crash''" notes_init]
        error_middleware_response [of "\<lparr>message = ''Not modified'', status = Some 304\<rparr>" 304
          express_match "[]" 6 "get_request ''/hello''" notes_init]
  by simp

text \<open>
  The claim as written promises the status field's value and the body for every status
  that is present. An error whose status is 204, an HTTP status code, is answered with
  status 204 and no body at all.
\<close>

theorem error_middleware_no_body_counterexample:
  "status \<lparr>message = ''x'', status = Some 204\<rparr> = Some 204 \<and>
   outcome (run express_match [Use_err error_middleware] 0
      (Some \<lparr>message = ''x'', status = Some 204\<rparr>) (get_request ''/'') notes_init) =
     Sent_no_body 204 \<and>
   outcome (run express_match [Use_err error_middleware] 0
      (Some \<lparr>message = ''x'', status = Some 204\<rparr>) (get_request ''/'') notes_init) \<noteq>
     Sent \<lparr>statusCode = 204,
       sent = JObject [(''error'', JObject [(''message'', JString ''x''), (''status'', JNumber 204)])]\<rparr>"
  by (simp add: error_middleware_def js_or_def res_status_json_other)

text \<open>
  Further from the claim: a status that is no valid code makes the write throw inside
  the error middleware, and the framework's own error page answers; a zero status is
  taken for a missing one.
\<close>

lemma error_middleware_invalid_status:
  "outcome (run mr [Use_err error_middleware] 0
      (Some \<lparr>message = ''x'', status = Some (- 1)\<rparr>) req s) =
     Fell_through_err \<lparr>message = ''Invalid status code: -1'', status = None\<rparr>"
  by (simp add: error_middleware_def js_or_def res_status_json_other ran_cons_def)

section \<open>The simulated-latency lookup\<close>

text \<open>
  Claim C4. For an id that matches no note, \<^verbatim>\<open>GET /notes/async-notes/<id>\<close> ends in an
  unhandled rejection carrying \<^verbatim>\<open>Error("Note not found in database")\<close>: only the async
  handler (position 3) runs, no response is shaped, and the error middleware of the
  lesson's application (position 6) is not called. The id matches no note when it is
  none of the ids of \<^verbatim>\<open>getNoteFromDB\<close>'s array (1 and 2); an id that no note of a
  reachable store has is such an id, since the seeded notes stay in the store.
\<close>

theorem async_missing_note_unhandled:
  assumes "segment_ok i"
    and "(i \<noteq> ''1'' \<and> i \<noteq> ''2'') \<or> (reachable s \<and> i \<notin> note_id ` set s)"
  shows "handle app (get_request (async_notes_url i)) s =
     \<lparr>outcome = Unhandled_rejection \<lparr>message = ''Note not found in database'', status = None\<rparr>,
      store = s, ran = [3]\<rparr> \<and>
   handle lesson_app (get_request (async_notes_url i)) s =
     \<lparr>outcome = Unhandled_rejection \<lparr>message = ''Note not found in database'', status = None\<rparr>,
      store = s, ran = [3]\<rparr>"
proof -
  have "i \<noteq> ''1'' \<and> i \<noteq> ''2''"
    using assms(2) reachable_keeps_seed by blast
  then have miss: "getNoteFromDB (Some i) =
      Inl \<lparr>message = ''Note not found in database'', status = None\<rparr>"
    by (simp add: getNoteFromDB_miss)
  show ?thesis
    unfolding handle_def app_stages lesson_app_stages
    by (simp add: get_request_def match_async_notes_url [OF assms(1)] async_notes_def miss)
qed

text \<open>\<^verbatim>\<open>GET /notes/async-notes/999\<close> on the seeded store.\<close>

theorem async_missing_note_unhandled_witness:
  "segment_ok ''999'' \<and> reachable notes_init \<and> ''999'' \<notin> note_id ` set notes_init \<and>
   handle app (get_request ''/notes/async-notes/999'') notes_init =
     \<lparr>outcome = Unhandled_rejection \<lparr>message = ''Note not found in database'', status = None\<rparr>,
      store = notes_init, ran = [3]\<rparr> \<and>
   handle lesson_app (get_request ''/notes/async-notes/999'') notes_init =
     \<lparr>outcome = Unhandled_rejection \<lparr>message = ''Note not found in database'', status = None\<rparr>,
      store = notes_init, ran = [3]\<rparr>"
proof -
  have ok: "segment_ok ''999''" by (simp add: segment_ok_def)
  have no: "''999'' \<notin> note_id ` set notes_init" by (simp add: notes_init_def)
  have either: "(''999'' \<noteq> ''1'' \<and> ''999'' \<noteq> ''2'') \<or>
      (reachable notes_init \<and> ''999'' \<notin> note_id ` set notes_init)"
    using no reachable_init by simp
  show ?thesis
    using ok no reachable_init async_missing_note_unhandled [OF ok either]
    by (simp add: async_notes_url_def)
qed

text \<open>The corrected route of the README delegates the same rejection with status 404.\<close>

lemma async_notes_fixed_miss:
  "i \<noteq> ''1'' \<Longrightarrow> i \<noteq> ''2'' \<Longrightarrow>
   async_notes_fixed (req\<lparr>params := [(''id'', i)]\<rparr>) s =
     (Next_err \<lparr>message = ''Note not found in database'', status = Some 404\<rparr>, s)"
  by (simp add: async_notes_fixed_def getNoteFromDB_miss)

text \<open>
  Claim C9. \<^verbatim>\<open>GET /notes/async-notes\<close> has one segment after the mount path. The
  \<^verbatim>\<open>/:id\<close> route (position 2, registered before the async route at position 3) matches it
  with \<^verbatim>\<open>id = "async-notes"\<close>, while the async route's pattern does not match it at all.
  No note has that id (in no reachable store, whose ids are decimal strings), so the
  \<^verbatim>\<open>/:id\<close> handler delegates \<^verbatim>\<open>{message: "Note not found", status: 404}\<close>; the async
  handler does not run.
\<close>

theorem async_notes_segment_taken_by_show:
  assumes "''async-notes'' \<notin> note_id ` set s \<or> reachable s"
  shows "app ! 2 = Mounted ''/notes'' GET ''/:id'' notes_show \<and>
     app ! 3 = Mounted ''/notes'' GET ''/async-notes/:id'' async_notes \<and>
     match_mounted ''/notes'' ''/:id'' ''/notes/async-notes'' = Some [(''id'', ''async-notes'')] \<and>
     match_mounted ''/notes'' ''/async-notes/:id'' ''/notes/async-notes'' = None \<and>
     handle app (get_request ''/notes/async-notes'') s =
       \<lparr>outcome = Fell_through_err \<lparr>message = ''Note not found'', status = Some 404\<rparr>,
        store = s, ran = [2]\<rparr> \<and>
     handle lesson_app (get_request ''/notes/async-notes'') s =
       \<lparr>outcome = Sent \<lparr>statusCode = 404, sent = error_json ''Note not found'' 404\<rparr>,
        store = s, ran = [2, 6]\<rparr>"
proof -
  have "''async-notes'' \<notin> note_id ` set s"
    using assms reachable_no_async_notes by blast
  then have miss: "find_note s (Some ''async-notes'') = None"
    by (simp add: find_note_None)
  have stages: "app ! 2 = Mounted ''/notes'' GET ''/:id'' notes_show"
    "app ! 3 = Mounted ''/notes'' GET ''/async-notes/:id'' async_notes"
    by (simp_all add: app_stages)
  have matches:
    "match_mounted ''/notes'' ''/:id'' ''/notes/async-notes'' = Some [(''id'', ''async-notes'')]"
    "match_mounted ''/notes'' ''/async-notes/:id'' ''/notes/async-notes'' = None"
    using match_notes_async(3,4) by (simp_all add: express_match_def)
  have shipped: "handle app (get_request ''/notes/async-notes'') s =
       \<lparr>outcome = Fell_through_err \<lparr>message = ''Note not found'', status = Some 404\<rparr>,
        store = s, ran = [2]\<rparr>"
    unfolding handle_def app_stages
    by (simp add: get_request_def match_notes_async miss notes_show_def ran_cons_def)
  have lesson: "handle lesson_app (get_request ''/notes/async-notes'') s =
       \<lparr>outcome = Sent \<lparr>statusCode = 404, sent = error_json ''Note not found'' 404\<rparr>,
        store = s, ran = [2, 6]\<rparr>"
    unfolding handle_def lesson_app_stages
    by (simp add: get_request_def match_notes_async miss notes_show_def error_middleware_def
        js_or_def res_status_json_common ran_cons_def)
  show ?thesis
    using stages matches shipped lesson by simp
qed

text \<open>On the seeded store no note has the id \<^verbatim>\<open>async-notes\<close>.\<close>

theorem async_notes_segment_taken_by_show_witness:
  "''async-notes'' \<notin> note_id ` set notes_init \<and> reachable notes_init \<and>
   handle app (get_request ''/notes/async-notes'') notes_init =
     \<lparr>outcome = Fell_through_err \<lparr>message = ''Note not found'', status = Some 404\<rparr>,
      store = notes_init, ran = [2]\<rparr>"
proof -
  have no: "''async-notes'' \<notin> note_id ` set notes_init"
    by (simp add: notes_init_def)
  have either: "''async-notes'' \<notin> note_id ` set notes_init \<or> reachable notes_init"
    using no by simp
  show ?thesis
    using no reachable_init async_notes_segment_taken_by_show [OF either] by simp
qed

text \<open>A note appended to the store is found by the \<^verbatim>\<open>/:id\<close> route.\<close>

lemma appended_note_visible:
  "handle lesson_app (get_request ''/notes/3'') (notes_init @ [\<lparr>note_id = ''3'', title = ''T'', body = ''B''\<rparr>]) =
     \<lparr>outcome = Sent \<lparr>statusCode = 200, sent = note_json \<lparr>note_id = ''3'', title = ''T'', body = ''B''\<rparr>\<rparr>,
      store = notes_init @ [\<lparr>note_id = ''3'', title = ''T'', body = ''B''\<rparr>], ran = [2]\<rparr>"
proof -
  have ok: "segment_ok ''3''" by (simp add: segment_ok_def)
  have hit: "find_note (notes_init @ [\<lparr>note_id = ''3'', title = ''T'', body = ''B''\<rparr>]) (Some ''3'') =
      Some \<lparr>note_id = ''3'', title = ''T'', body = ''B''\<rparr>"
    by (simp add: find_note_def notes_init_def)
  have "handle lesson_app (get_request (notes_url ''3'')) (notes_init @ [\<lparr>note_id = ''3'', title = ''T'', body = ''B''\<rparr>]) =
     \<lparr>outcome = Sent \<lparr>statusCode = 200, sent = note_json \<lparr>note_id = ''3'', title = ''T'', body = ''B''\<rparr>\<rparr>,
      store = notes_init @ [\<lparr>note_id = ''3'', title = ''T'', body = ''B''\<rparr>], ran = [2]\<rparr>"
    unfolding handle_def lesson_app_stages
    by (simp add: get_request_def match_notes_url [OF ok] hit notes_show_def res_json_def)
  then show ?thesis by (simp add: notes_url_def)
qed

text \<open>
  Claim C10. The outcome of \<^verbatim>\<open>GET /notes/async-notes/<id>\<close> is the outcome of
  \<^verbatim>\<open>getNoteFromDB(id)\<close>, which searches its own two-note array: two runs with the same id
  on any two stores end alike, and the run leaves the store as it was. Notes appended to
  the router's array are therefore invisible to this route.
\<close>

theorem async_lookup_ignores_store:
  assumes "segment_ok i"
  shows "outcome (handle lesson_app (get_request (async_notes_url i)) s) =
       outcome (handle lesson_app (get_request (async_notes_url i)) s') \<and>
     outcome (handle lesson_app (get_request (async_notes_url i)) s) =
       (case getNoteFromDB (Some i) of
          Inl e \<Rightarrow> Unhandled_rejection e
        | Inr n \<Rightarrow> Sent \<lparr>statusCode = 200, sent = note_json n\<rparr>) \<and>
     store (handle lesson_app (get_request (async_notes_url i)) s) = s"
  unfolding handle_def lesson_app_stages
  by (simp add: get_request_def match_async_notes_url [OF assms] async_notes_def res_json_def
      split: sum.splits)

text \<open>
  Id 3 on the seeded store and on the store with a third note appended: the lookup
  rejects in both, although the \<^verbatim>\<open>/:id\<close> route finds the appended note.
\<close>

theorem async_lookup_ignores_store_witness:
  "segment_ok ''3'' \<and>
   outcome (handle lesson_app (get_request ''/notes/async-notes/3'') notes_init) =
     Unhandled_rejection \<lparr>message = ''Note not found in database'', status = None\<rparr> \<and>
   outcome (handle lesson_app (get_request ''/notes/async-notes/3'')
       (notes_init @ [\<lparr>note_id = ''3'', title = ''T'', body = ''B''\<rparr>])) =
     Unhandled_rejection \<lparr>message = ''Note not found in database'', status = None\<rparr> \<and>
   outcome (handle lesson_app (get_request ''/notes/3'')
       (notes_init @ [\<lparr>note_id = ''3'', title = ''T'', body = ''B''\<rparr>])) =
     Sent \<lparr>statusCode = 200, sent = note_json \<lparr>note_id = ''3'', title = ''T'', body = ''B''\<rparr>\<rparr>"
proof -
  have ok: "segment_ok ''3''" by (simp add: segment_ok_def)
  have db: "getNoteFromDB (Some ''3'') = Inl \<lparr>message = ''Note not found in database'', status = None\<rparr>"
    by (simp add: getNoteFromDB_miss)
  show ?thesis
    using ok
      async_lookup_ignores_store [OF ok, of notes_init notes_init]
      async_lookup_ignores_store [OF ok, of "notes_init @ [\<lparr>note_id = ''3'', title = ''T'', body = ''B''\<rparr>]" notes_init]
    by (simp add: async_notes_url_def db appended_note_visible)
qed

section \<open>Creating a note\<close>

text \<open>
  Claim C7. For every store, \<^verbatim>\<open>POST /notes\<close> with a non-empty title \<open>T\<close> and a non-empty
  body \<open>B\<close> is answered with status 201 and the created note
  \<^verbatim>\<open>{id: <i>, title: T, body: B}\<close>, where \<open>i\<close> is \<^verbatim>\<open>String(previous length + 1)\<close>: a string of
  decimal digits without a leading zero that denotes the previous length plus one. The
  note is appended to the store, and a following \<^verbatim>\<open>GET /notes\<close> returns the array of the
  earlier notes followed by that note as its last element.
\<close>

theorem create_note_appends:
  assumes "map_of b ''title'' = Some T" and "map_of b ''body'' = Some B"
    and "T \<noteq> []" and "B \<noteq> []"
  shows "let i = String_nat (length s + 1);
             n = \<lparr>note_id = i, title = T, body = B\<rparr>;
             created = JObject [(''id'', JString i), (''title'', JString T), (''body'', JString B)]
         in decimal i \<and> hd i \<noteq> CHR ''0'' \<and> decimal_value i = length s + 1 \<and>
            handle lesson_app (post_request ''/notes'' b) s =
              \<lparr>outcome = Sent \<lparr>statusCode = 201, sent = created\<rparr>, store = s @ [n], ran = [4]\<rparr> \<and>
            handle lesson_app (get_request ''/notes'') (s @ [n]) =
              \<lparr>outcome = Sent \<lparr>statusCode = 200,
                 sent = JArray
                   (map (\<lambda>m. JObject [(''id'', JString (note_id m)), (''title'', JString (title m)),
                                       (''body'', JString (body m))]) s @ [created])\<rparr>,
               store = s @ [n], ran = [1]\<rparr>"
proof -
  have id_ok: "decimal (String_nat (length s + 1))"
    "hd (String_nat (length s + 1)) \<noteq> CHR ''0''"
    "decimal_value (String_nat (length s + 1)) = length s + 1"
    by (simp_all add: decimal_String_nat hd_String_nat decimal_value_String_nat)
  have post: "handle lesson_app (post_request ''/notes'' b) s =
      \<lparr>outcome = Sent \<lparr>statusCode = 201,
         sent = JObject [(''id'', JString (String_nat (length s + 1))), (''title'', JString T),
                         (''body'', JString B)]\<rparr>,
       store = s @ [\<lparr>note_id = String_nat (length s + 1), title = T, body = B\<rparr>], ran = [4]\<rparr>"
    unfolding handle_def lesson_app_stages
    by (simp add: post_request_def match_notes post_notes_def falsy_def assms
        res_status_json_common note_json_def Let_def)
  have get: "handle lesson_app (get_request ''/notes'')
        (s @ [\<lparr>note_id = String_nat (length s + 1), title = T, body = B\<rparr>]) =
      \<lparr>outcome = Sent \<lparr>statusCode = 200,
         sent = JArray
           (map (\<lambda>m. JObject [(''id'', JString (note_id m)), (''title'', JString (title m)),
                               (''body'', JString (body m))]) s @
            [JObject [(''id'', JString (String_nat (length s + 1))), (''title'', JString T),
                      (''body'', JString B)]])\<rparr>,
       store = s @ [\<lparr>note_id = String_nat (length s + 1), title = T, body = B\<rparr>], ran = [1]\<rparr>"
    unfolding handle_def lesson_app_stages
    by (simp add: get_request_def match_notes notes_index_def res_json_def note_json_def)
  show ?thesis
    unfolding Let_def using id_ok post get by blast
qed

text \<open>
  Posting \<^verbatim>\<open>{title: "T", body: "B"}\<close> to the seeded store creates the note with id 3;
  posting it to a store of eleven notes creates the note with id 12.
\<close>

theorem create_note_appends_witness:
  "handle lesson_app (post_request ''/notes'' [(''title'', ''T''), (''body'', ''B'')]) notes_init =
     \<lparr>outcome = Sent \<lparr>statusCode = 201,
        sent = JObject [(''id'', JString ''3''), (''title'', JString ''T''), (''body'', JString ''B'')]\<rparr>,
      store = notes_init @ [\<lparr>note_id = ''3'', title = ''T'', body = ''B''\<rparr>], ran = [4]\<rparr> \<and>
   handle lesson_app (get_request ''/notes'') (notes_init @ [\<lparr>note_id = ''3'', title = ''T'', body = ''B''\<rparr>]) =
     \<lparr>outcome = Sent \<lparr>statusCode = 200,
        sent = JArray
          [JObject [(''id'', JString ''1''), (''title'', JString ''Grocery''), (''body'', JString ''Buy milk'')],
           JObject [(''id'', JString ''2''), (''title'', JString ''Workout''), (''body'', JString ''Leg day'')],
           JObject [(''id'', JString ''3''), (''title'', JString ''T''), (''body'', JString ''B'')]]\<rparr>,
      store = notes_init @ [\<lparr>note_id = ''3'', title = ''T'', body = ''B''\<rparr>], ran = [1]\<rparr> \<and>
   outcome (handle lesson_app (post_request ''/notes'' [(''title'', ''T''), (''body'', ''B'')])
       (replicate 11 \<lparr>note_id = ''1'', title = ''Grocery'', body = ''Buy milk''\<rparr>)) =
     Sent \<lparr>statusCode = 201,
       sent = JObject [(''id'', JString ''12''), (''title'', JString ''T''), (''body'', JString ''B'')]\<rparr>"
proof -
  have three: "String_nat (length notes_init + 1) = ''3''"
    by (simp add: notes_init_def String_nat_small digit_char_def)
  have twelve: "String_nat (length (replicate 11 \<lparr>note_id = ''1'', title = ''Grocery'', body = ''Buy milk''\<rparr>) + 1) = ''12''"
    using String_nat_12 by simp
  have a: "map_of [(''title'', ''T''), (''body'', ''B'')] ''title'' = Some ''T''"
    and b: "map_of [(''title'', ''T''), (''body'', ''B'')] ''body'' = Some ''B''"
    and c: "''T'' \<noteq> []" and d: "''B'' \<noteq> []"
    by simp_all
  from create_note_appends [OF a b c d, of notes_init]
  have first: "handle lesson_app (post_request ''/notes'' [(''title'', ''T''), (''body'', ''B'')]) notes_init =
     \<lparr>outcome = Sent \<lparr>statusCode = 201,
        sent = JObject [(''id'', JString ''3''), (''title'', JString ''T''), (''body'', JString ''B'')]\<rparr>,
      store = notes_init @ [\<lparr>note_id = ''3'', title = ''T'', body = ''B''\<rparr>], ran = [4]\<rparr> \<and>
   handle lesson_app (get_request ''/notes'') (notes_init @ [\<lparr>note_id = ''3'', title = ''T'', body = ''B''\<rparr>]) =
     \<lparr>outcome = Sent \<lparr>statusCode = 200,
        sent = JArray
          [JObject [(''id'', JString ''1''), (''title'', JString ''Grocery''), (''body'', JString ''Buy milk'')],
           JObject [(''id'', JString ''2''), (''title'', JString ''Workout''), (''body'', JString ''Leg day'')],
           JObject [(''id'', JString ''3''), (''title'', JString ''T''), (''body'', JString ''B'')]]\<rparr>,
      store = notes_init @ [\<lparr>note_id = ''3'', title = ''T'', body = ''B''\<rparr>], ran = [1]\<rparr>"
    unfolding Let_def three by (simp add: notes_init_def)
  from create_note_appends [OF a b c d,
      of "replicate 11 \<lparr>note_id = ''1'', title = ''Grocery'', body = ''Buy milk''\<rparr>"]
  have second: "outcome (handle lesson_app (post_request ''/notes'' [(''title'', ''T''), (''body'', ''B'')])
       (replicate 11 \<lparr>note_id = ''1'', title = ''Grocery'', body = ''Buy milk''\<rparr>)) =
     Sent \<lparr>statusCode = 201,
       sent = JObject [(''id'', JString ''12''), (''title'', JString ''T''), (''body'', JString ''B'')]\<rparr>"
    unfolding Let_def twelve by simp
  show ?thesis
    using first second by blast
qed

text \<open>
  Claim C8. \<^verbatim>\<open>POST /notes\<close> with a missing or empty title, or a missing or empty body, is
  answered with status 400 and the body
  \<^verbatim>\<open>{error: {message: "title and body required", status: 400}}\<close>, and the store is left
  exactly as it was: the handler (position 4) delegates and the error middleware
  (position 6) answers.
\<close>

theorem create_note_rejects_missing_fields:
  assumes "falsy (map_of b ''title'') \<or> falsy (map_of b ''body'')"
  shows "handle lesson_app (post_request ''/notes'' b) s =
     \<lparr>outcome = Sent \<lparr>statusCode = 400, sent = error_json ''title and body required'' 400\<rparr>,
      store = s, ran = [4, 6]\<rparr>"
  using assms unfolding handle_def lesson_app_stages
  by (simp add: post_request_def match_notes post_notes_def AppError_def error_middleware_def
      js_or_def res_status_json_common ran_cons_def)

text \<open>A body without \<^verbatim>\<open>body\<close>, and a body whose \<^verbatim>\<open>title\<close> is the empty string.\<close>

theorem create_note_rejects_missing_fields_witness:
  "falsy (map_of [(''title'', ''T'')] ''body'') \<and>
   handle lesson_app (post_request ''/notes'' [(''title'', ''T'')]) notes_init =
     \<lparr>outcome = Sent \<lparr>statusCode = 400, sent = error_json ''title and body required'' 400\<rparr>,
      store = notes_init, ran = [4, 6]\<rparr> \<and>
   falsy (map_of [(''title'', []), (''body'', ''B'')] ''title'') \<and>
   handle lesson_app (post_request ''/notes'' [(''title'', []), (''body'', ''B'')]) notes_init =
     \<lparr>outcome = Sent \<lparr>statusCode = 400, sent = error_json ''title and body required'' 400\<rparr>,
      store = notes_init, ran = [4, 6]\<rparr>"
proof -
  have f1: "falsy (map_of [(''title'', ''T'')] ''body'')"
    by (simp add: falsy_def)
  have f2: "falsy (map_of [(''title'', []), (''body'', ''B'')] ''title'')"
    by (simp add: falsy_def)
  show ?thesis
    using f1 f2
      create_note_rejects_missing_fields [of "[(''title'', ''T'')]" notes_init]
      create_note_rejects_missing_fields [of "[(''title'', []), (''body'', ''B'')]" notes_init]
    by simp
qed

section \<open>app.js as shipped\<close>

text \<open>
  app.js registers neither the catch-all nor the error middleware (its steps 4 and 5 are
  comments). A request that matches no route runs off the end of the chain, and the error
  delegated for a missing note reaches the end of the chain unanswered; both are left to
  the framework's own pages. The shaped responses above are those of the chain with the
  README's middleware in place.
\<close>

lemma app_unmatched:
  assumes "\<not> (\<exists>st \<in> set app. route_matches mr st req)"
  shows "run mr app 0 None req s = \<lparr>outcome = Fell_through, store = s, ran = []\<rparr>"
proof -
  from assms have
    "\<not> route_matches mr (Route GET ''/hello'' hello) req"
    "\<not> route_matches mr (Mounted ''/notes'' GET ''/'' notes_index) req"
    "\<not> route_matches mr (Mounted ''/notes'' GET ''/:id'' notes_show) req"
    "\<not> route_matches mr (Mounted ''/notes'' GET ''/async-notes/:id'' async_notes) req"
    unfolding app_stages by simp_all
  then have skip:
    "invoke mr (Route GET ''/hello'' hello) None req s = None"
    "invoke mr (Mounted ''/notes'' GET ''/'' notes_index) None req s = None"
    "invoke mr (Mounted ''/notes'' GET ''/:id'' notes_show) None req s = None"
    "invoke mr (Mounted ''/notes'' GET ''/async-notes/:id'' async_notes) None req s = None"
    by (simp_all add: invoke_unmatched del: invoke.simps route_matches.simps)
  show ?thesis
    unfolding app_stages
    by (simp del: invoke.simps add: skip)
qed

end
